theory Spec2Isabelle
  imports Main
begin

section \<open>Object literals\<close>

text \<open>
  The collection schema of \<^verbatim>\<open>src/collections/Projects.ts\<close> is a TypeScript
  object literal. It is embedded as the value it denotes: an object is the list of its
  properties in the order the literal writes them, so that a property the literal does
  not write is absent from the model too.

  Strings are byte strings. A literal of the source that is not ASCII (the Japanese
  labels and page texts) is the list of the bytes the source file holds for it (UTF-8).
\<close>

datatype js = Str string | Bool bool | Arr "js list" | Obj "(string \<times> js) list"

text \<open>\<^verbatim>\<open>o[k]\<close>: the value of property \<open>k\<close>, \<open>None\<close> for \<^verbatim>\<open>undefined\<close>.\<close>

fun property :: "string \<Rightarrow> js \<Rightarrow> js option" where
  "property k (Obj kvs) = map_of kvs k"
| "property k _ = None"

text \<open>\<^verbatim>\<open>Object.keys(o)\<close>.\<close>

fun keys :: "js \<Rightarrow> string list" where
  "keys (Obj kvs) = map fst kvs"
| "keys _ = []"

text \<open>The elements of an array; a value that is not an array has none.\<close>

fun elements :: "js \<Rightarrow> js list" where
  "elements (Arr xs) = xs"
| "elements _ = []"

section \<open>The Projects collection\<close>

text \<open>
  \<^verbatim>\<open>
  export const Projects: CollectionConfig = {
    slug: 'projects',
    admin: { useAsTitle: 'title' },
    fields: [
      { name: 'title', type: 'text', required: true, label: ... },
      { name: 'mainImage', type: 'upload', relationTo: 'media', required: false, label: ... },
      { name: 'url', type: 'text', label: ... },
      { name: 'description', type: 'textarea', label: ... },
    ],
  }
  \<close>
\<close>

definition Projects :: js where
  "Projects = Obj
     [(''slug'', Str ''projects''),
      (''admin'', Obj [(''useAsTitle'', Str ''title'')]),
      (''fields'', Arr
        [Obj [(''name'', Str ''title''),
              (''type'', Str ''text''),
              (''required'', Bool True),
              (''label'', Str [CHR 0xE5, CHR 0xAE, CHR 0x9F, CHR 0xE7, CHR 0xB8, CHR 0xBE,
                               CHR 0xE5, CHR 0x90, CHR 0x8D])],
         Obj [(''name'', Str ''mainImage''),
              (''type'', Str ''upload''),
              (''relationTo'', Str ''media''),
              (''required'', Bool False),
              (''label'', Str [CHR 0xE3, CHR 0x83, CHR 0xA1, CHR 0xE3, CHR 0x82, CHR 0xA4,
                               CHR 0xE3, CHR 0x83, CHR 0xB3, CHR 0xE7, CHR 0x94, CHR 0xBB,
                               CHR 0xE5, CHR 0x83, CHR 0x8F])],
         Obj [(''name'', Str ''url''),
              (''type'', Str ''text''),
              (''label'', Str [CHR 0xE3, CHR 0x82, CHR 0xB5, CHR 0xE3, CHR 0x82, CHR 0xA4,
                               CHR 0xE3, CHR 0x83, CHR 0x88, CHR 0x55, CHR 0x52, CHR 0x4C])],
         Obj [(''name'', Str ''description''),
              (''type'', Str ''textarea''),
              (''label'', Str [CHR 0xE8, CHR 0xAA, CHR 0xAC, CHR 0xE6, CHR 0x98, CHR 0x8E,
                               CHR 0xE6, CHR 0x96, CHR 0x87])]])]"

text \<open>The field schema of a collection configuration: \<^verbatim>\<open>c.fields\<close>.\<close>

definition fields_of :: "js \<Rightarrow> js list" where
  "fields_of c = (case property ''fields'' c of Some fs \<Rightarrow> elements fs | None \<Rightarrow> [])"

text \<open>The field of a collection with a given name, when the schema has one.\<close>

definition field_named :: "string \<Rightarrow> js \<Rightarrow> js option" where
  "field_named n c = find (\<lambda>f. property ''name'' f = Some (Str n)) (fields_of c)"

section \<open>Element trees\<close>

text \<open>
  A JSX expression denotes a React element: its type (a host tag such as \<open>div\<close>, or a
  component named by the identifier the module imports), its props in the order the
  source writes them, and its children. Text between tags is a text node.
\<close>

datatype tag = Host string | Component string

datatype node = Text string | Element tag "(string \<times> string) list" "node list"

fun tag_of :: "node \<Rightarrow> tag option" where
  "tag_of (Text s) = None"
| "tag_of (Element t ps ns) = Some t"

fun attr :: "string \<Rightarrow> node \<Rightarrow> string option" where
  "attr k (Text s) = None"
| "attr k (Element t ps ns) = map_of ps k"

fun children_of :: "node \<Rightarrow> node list" where
  "children_of (Text s) = []"
| "children_of (Element t ps ns) = ns"

text \<open>A tree's nodes, the root first, in document order.\<close>

fun descendants :: "node \<Rightarrow> node list" where
  "descendants (Text s) = [Text s]"
| "descendants (Element t ps ns) = Element t ps ns # concat (map descendants ns)"

text \<open>The text a tree shows.\<close>

fun text_of :: "node \<Rightarrow> string" where
  "text_of (Text s) = s"
| "text_of (Element t ps ns) = concat (map text_of ns)"

text \<open>The elements of a tree with a given tag.\<close>

definition elements_with :: "tag \<Rightarrow> node \<Rightarrow> node list" where
  "elements_with t n = filter (\<lambda>d. tag_of d = Some t) (descendants n)"

text \<open>
  A link is an anchor element or an element of the component \<open>Link\<close> of
  \<^verbatim>\<open>next/link\<close>; it is read as its target and its text.
\<close>

definition is_link :: "node \<Rightarrow> bool" where
  "is_link n = (tag_of n = Some (Host ''a'') \<or> tag_of n = Some (Component ''Link''))"

definition link_of :: "node \<Rightarrow> string option \<times> string" where
  "link_of n = (attr ''href'' n, text_of n)"

text \<open>A tree with the children of every element of tag \<open>t\<close> removed.\<close>

fun without_children_of :: "tag \<Rightarrow> node \<Rightarrow> node" where
  "without_children_of t (Text s) = Text s"
| "without_children_of t (Element u ps ns) =
     (if u = t then Element u ps [] else Element u ps (map (without_children_of t) ns))"

section \<open>The header\<close>

text \<open>
  \<^verbatim>\<open>export default function Header() { return (<header className="header"> ... ) }\<close>
  of \<^verbatim>\<open>src/components/Layout/Header.tsx\<close>. The function declares no parameter; the
  props React calls it with are the argument the model ignores.
\<close>

definition Header :: "'props \<Rightarrow> node" where
  "Header props =
     Element (Host ''header'') [(''className'', ''header'')]
       [Element (Host ''div'') [(''className'', ''header__inner'')]
          [Element (Host ''a'') [(''className'', ''header__logo''), (''href'', ''/'')]
             [Text ''Portfolio''],
           Element (Host ''nav'') [(''className'', ''header__nav'')]
             [Element (Host ''a'') [(''href'', ''/'')] [Text ''Home''],
              Element (Host ''a'') [(''href'', ''/about'')] [Text ''About''],
              Element (Host ''a'') [(''href'', ''/works'')] [Text ''Works''],
              Element (Host ''a'') [(''href'', ''/contact'')] [Text ''Contact''],
              Element (Component ''Link'') [(''href'', ''/admin'')] [Text ''Admin'']]]]"

section \<open>The root layout\<close>

text \<open>
  \<^verbatim>\<open>src/app/(frontend)/layout.tsx\<close> loads three fonts when the module is evaluated,
  by calling the loaders of \<^verbatim>\<open>next/font/google\<close>. The loaders are the framework's:
  the model takes them as parameters. A loader returns a font object, whose property
  \<open>variable\<close> is the class name that defines the font's CSS variable, or raises.
\<close>

record next_font =
  className :: string
  variable :: string


text \<open>The module's constants \<open>zenKaku\<close>, \<open>dancingScript\<close> and \<open>quicksand\<close>.\<close>

record layout_module =
  zenKaku :: next_font
  dancingScript :: next_font
  quicksand :: next_font






definition metadata :: js where
  "metadata = Obj [(''description'', Str ''A blank template using Payload in a Next.js app.''),
                   (''title'', Str ''Payload Blank Template'')]"

text \<open>
  \<^verbatim>\<open>
  export default async function RootLayout(props: { children: React.ReactNode }) {
    const { children } = props
    return (
      <html lang="ja" className={`${zenKaku.variable} ${dancingScript.variable} ${quicksand.variable}`}>
        <body> <Header /> <main>{children}</main> </body>
      </html>)
  }
  \<close>
  The children are the nodes the framework passes in. The function awaits nothing and
  raises nothing: its promise resolves with the tree.
\<close>

definition RootLayout :: "layout_module \<Rightarrow> node list \<Rightarrow> node" where
  "RootLayout m children =
     Element (Host ''html'')
       [(''lang'', ''ja''),
        (''className'', variable (zenKaku m) @ '' '' @ variable (dancingScript m) @ '' ''
                          @ variable (quicksand m))]
       [Element (Host ''body'') []
          [Element (Component ''Header'') [] [],
           Element (Host ''main'') [] children]]"

section \<open>The home page\<close>

text \<open>
  \<^verbatim>\<open>src/app/(frontend)/page.tsx\<close> calls into the web framework and the CMS:
  \<^verbatim>\<open>headers()\<close> of \<^verbatim>\<open>next/headers\<close>, the promise \<open>config\<close> that
  \<^verbatim>\<open>payload.config\<close> exports, \<^verbatim>\<open>getPayload\<close> of \<^verbatim>\<open>payload\<close>, and the method
  \<open>auth\<close> of the object \<open>getPayload\<close> resolves with. None of them is code of this
  repository: the model takes them as parameters, one record for the environment of one
  request. Each returns its value (\<open>Inr\<close>) or raises (\<open>Inl\<close>); the types of headers
  \<open>'h\<close>, of the configuration \<open>'c\<close>, of the CMS instance \<open>'p\<close>, of users \<open>'u\<close>
  and of errors \<open>'e\<close> are the framework's.
\<close>

record 'u auth_result =
  user :: 'u

record ('h, 'c, 'p, 'u, 'e) runtime =
  getHeaders :: "'e + 'h"
  config :: "'e + 'c"
  getPayload :: "'c \<Rightarrow> 'e + 'p"
  auth :: "'p \<Rightarrow> 'h \<Rightarrow> 'e + 'u auth_result"

text \<open>The calls a component makes into the framework, with their arguments.\<close>

datatype ('h, 'c, 'p) call = Call_getHeaders | Call_getPayload 'c | Call_auth 'p 'h

text \<open>
  An \<^verbatim>\<open>async\<close> function is run as the list of the calls it made and its outcome.
  \<open>await_call k r f\<close> is \<^verbatim>\<open>const x = await k(...); f(x)\<close> where the call \<open>k\<close> has the
  outcome \<open>r\<close>: the call is made, and a rejection ends the function with that error.
  \<open>await_value\<close> awaits a promise the module already holds, and \<open>resolved\<close> is
  \<^verbatim>\<open>return\<close>.
\<close>

definition resolved :: "'a \<Rightarrow> 'k list \<times> ('e + 'a)" where
  "resolved a = ([], Inr a)"

definition await_value :: "'e + 'x \<Rightarrow> ('x \<Rightarrow> 'k list \<times> ('e + 'a)) \<Rightarrow> 'k list \<times> ('e + 'a)" where
  "await_value r f = (case r of Inl e \<Rightarrow> ([], Inl e) | Inr x \<Rightarrow> f x)"

definition await_call ::
    "'k \<Rightarrow> 'e + 'x \<Rightarrow> ('x \<Rightarrow> 'k list \<times> ('e + 'a)) \<Rightarrow> 'k list \<times> ('e + 'a)" where
  "await_call k r f =
     (case r of Inl e \<Rightarrow> ([k], Inl e) | Inr x \<Rightarrow> (k # fst (f x), snd (f x)))"

text \<open>
  \<^verbatim>\<open>
  export default async function HomePage() {
    const headers = await getHeaders()
    const payloadConfig = await config
    const payload = await getPayload({ config: payloadConfig })
    const { user } = await payload.auth({ headers })
    return (<div className="home"> <section>...</section> (five sections) </div>)
  }
  \<close>
\<close>

definition HomePage ::
    "('h, 'c, 'p, 'u, 'e) runtime \<Rightarrow> ('h, 'c, 'p) call list \<times> ('e + node)" where
  "HomePage rt =
     await_call Call_getHeaders (getHeaders rt) (\<lambda>headers.
     await_value (config rt) (\<lambda>payloadConfig.
     await_call (Call_getPayload payloadConfig) (getPayload rt payloadConfig) (\<lambda>payload.
     await_call (Call_auth payload headers) (auth rt payload headers) (\<lambda>r.
     let u = user r in
     resolved
       (Element (Host ''div'') [(''className'', ''home'')]
        [Element (Host ''section'') []
            [Text [CHR 0xE3, CHR 0x83, CHR 0x9D, CHR 0xE3, CHR 0x83, CHR 0xBC, CHR 0xE3, CHR 0x83, CHR 0x88,
                   CHR 0xE3, CHR 0x83, CHR 0x95, CHR 0xE3, CHR 0x82, CHR 0xA9, CHR 0xE3, CHR 0x83, CHR 0xAA,
                   CHR 0xE3, CHR 0x82, CHR 0xAA]],
         Element (Host ''section'') []
            [Text [CHR 0xE3, CHR 0x83, CHR 0x9D, CHR 0xE3, CHR 0x83, CHR 0xBC, CHR 0xE3, CHR 0x83, CHR 0x88,
                   CHR 0xE3, CHR 0x83, CHR 0x95, CHR 0xE3, CHR 0x82, CHR 0xA9, CHR 0xE3, CHR 0x83, CHR 0xAA,
                   CHR 0xE3, CHR 0x82, CHR 0xAA, CHR 0xEF, CHR 0xBC, CHR 0x91]],
         Element (Host ''section'') []
            [Text [CHR 0xE3, CHR 0x83, CHR 0x9D, CHR 0xE3, CHR 0x83, CHR 0xBC, CHR 0xE3, CHR 0x83, CHR 0x88,
                   CHR 0xE3, CHR 0x83, CHR 0x95, CHR 0xE3, CHR 0x82, CHR 0xA9, CHR 0xE3, CHR 0x83, CHR 0xAA,
                   CHR 0xE3, CHR 0x82, CHR 0xAA, CHR 0xEF, CHR 0xBC, CHR 0x92]],
         Element (Host ''section'') []
            [Text [CHR 0xE3, CHR 0x83, CHR 0x9D, CHR 0xE3, CHR 0x83, CHR 0xBC, CHR 0xE3, CHR 0x83, CHR 0x88,
                   CHR 0xE3, CHR 0x83, CHR 0x95, CHR 0xE3, CHR 0x82, CHR 0xA9, CHR 0xE3, CHR 0x83, CHR 0xAA,
                   CHR 0xE3, CHR 0x82, CHR 0xAA, CHR 0xEF, CHR 0xBC, CHR 0x93]],
         Element (Host ''section'') []
            [Text [CHR 0xE3, CHR 0x83, CHR 0x9D, CHR 0xE3, CHR 0x83, CHR 0xBC, CHR 0xE3, CHR 0x83, CHR 0x88,
                   CHR 0xE3, CHR 0x83, CHR 0x95, CHR 0xE3, CHR 0x82, CHR 0xA9, CHR 0xE3, CHR 0x83, CHR 0xAA,
                   CHR 0xE3, CHR 0x82, CHR 0xAA, CHR 0xEF, CHR 0xBC, CHR 0x94]]])))))"

text \<open>Every call and the promise \<open>config\<close> resolve for this request.\<close>

definition resolves :: "('h, 'c, 'p, 'u, 'e) runtime \<Rightarrow> bool" where
  "resolves rt =
     (case getHeaders rt of Inl e \<Rightarrow> False | Inr h \<Rightarrow>
     (case config rt of Inl e \<Rightarrow> False | Inr c \<Rightarrow>
     (case getPayload rt c of Inl e \<Rightarrow> False | Inr p \<Rightarrow>
     (case auth rt p h of Inl e \<Rightarrow> False | Inr r \<Rightarrow> True))))"


section \<open>The container build\<close>

text \<open>
  The Dockerfile, as the list of its instructions (comments and blank lines dropped).
  \<open>FROM image name\<close> is \<^verbatim>\<open>FROM image AS name\<close>, and \<open>COPY (Some s) src dst\<close> is
  \<^verbatim>\<open>COPY --from=s src dst\<close>.
\<close>

datatype instruction =
    FROM string "string option"
  | WORKDIR string
  | COPY "string option" string string
  | RUN string
  | ENV string string
  | EXPOSE nat
  | CMD "string list"

definition Dockerfile :: "instruction list" where
  "Dockerfile =
     [FROM ''node:22-alpine'' (Some ''builder''),
      WORKDIR ''/app'',
      COPY None ''package*.json'' ''./'',
      RUN ''npm install'',
      COPY None ''.'' ''.'',
      RUN ''npm run build'',
      FROM ''node:22-alpine'' (Some ''runner''),
      WORKDIR ''/app'',
      ENV ''NODE_ENV'' ''production'',
      COPY (Some ''builder'') ''/app/public'' ''./public'',
      COPY (Some ''builder'') ''/app/.next/standalone'' ''./'',
      COPY (Some ''builder'') ''/app/.next/static'' ''./.next/static'',
      EXPOSE 3000,
      ENV ''PORT'' ''3000'',
      CMD [''node'', ''server.js'']]"

text \<open>
  The stages of a build: every \<open>FROM\<close> opens a stage, which holds the instructions up
  to the next \<open>FROM\<close>. Instructions before the first \<open>FROM\<close> belong to no stage.
\<close>

fun stages_from :: "instruction list list \<Rightarrow> instruction list \<Rightarrow> instruction list list" where
  "stages_from acc [] = acc"
| "stages_from acc (FROM img nm # rest) = stages_from (acc @ [[FROM img nm]]) rest"
| "stages_from acc (i # rest) =
     (if acc = [] then stages_from [] rest
      else stages_from (butlast acc @ [last acc @ [i]]) rest)"

definition stages :: "instruction list \<Rightarrow> instruction list list" where
  "stages d = stages_from [] d"

fun stage_name :: "instruction list \<Rightarrow> string option" where
  "stage_name (FROM img nm # rest) = nm"
| "stage_name _ = None"

fun is_COPY :: "instruction \<Rightarrow> bool" where
  "is_COPY (COPY s src dst) = True"
| "is_COPY _ = False"

text \<open>What a stage exposes, the value it leaves in a variable, and the command it ends with.\<close>

fun exposed :: "instruction list \<Rightarrow> nat list" where
  "exposed [] = []"
| "exposed (EXPOSE n # rest) = n # exposed rest"
| "exposed (i # rest) = exposed rest"

fun env_of :: "instruction list \<Rightarrow> string \<Rightarrow> string option" where
  "env_of [] k = None"
| "env_of (ENV k' v # rest) k =
     (case env_of rest k of Some w \<Rightarrow> Some w | None \<Rightarrow> if k' = k then Some v else None)"
| "env_of (i # rest) k = env_of rest k"

fun command :: "instruction list \<Rightarrow> string list option" where
  "command [] = None"
| "command (CMD c # rest) = (case command rest of Some d \<Rightarrow> Some d | None \<Rightarrow> Some c)"
| "command (i # rest) = command rest"

section \<open>Properties of the Projects schema\<close>

lemma fields_of_Projects:
  "fields_of Projects =
     [Obj [(''name'', Str ''title''),
           (''type'', Str ''text''),
           (''required'', Bool True),
           (''label'', Str [CHR 0xE5, CHR 0xAE, CHR 0x9F, CHR 0xE7, CHR 0xB8, CHR 0xBE,
                            CHR 0xE5, CHR 0x90, CHR 0x8D])],
      Obj [(''name'', Str ''mainImage''),
           (''type'', Str ''upload''),
           (''relationTo'', Str ''media''),
           (''required'', Bool False),
           (''label'', Str [CHR 0xE3, CHR 0x83, CHR 0xA1, CHR 0xE3, CHR 0x82, CHR 0xA4,
                            CHR 0xE3, CHR 0x83, CHR 0xB3, CHR 0xE7, CHR 0x94, CHR 0xBB,
                            CHR 0xE5, CHR 0x83, CHR 0x8F])],
      Obj [(''name'', Str ''url''),
           (''type'', Str ''text''),
           (''label'', Str [CHR 0xE3, CHR 0x82, CHR 0xB5, CHR 0xE3, CHR 0x82, CHR 0xA4,
                            CHR 0xE3, CHR 0x83, CHR 0x88, CHR 0x55, CHR 0x52, CHR 0x4C])],
      Obj [(''name'', Str ''description''),
           (''type'', Str ''textarea''),
           (''label'', Str [CHR 0xE8, CHR 0xAA, CHR 0xAC, CHR 0xE6, CHR 0x98, CHR 0x8E,
                            CHR 0xE6, CHR 0x96, CHR 0x87])]]"
  by (simp add: fields_of_def Projects_def)

text \<open>
  C1, as the specification states it, gives the field \<open>description\<close> the type \<open>text\<close>.
  The schema declares it with the type \<open>textarea\<close>: the statement fails at that field.
\<close>

theorem Projects_description_not_text:
  "\<not> (length (fields_of Projects) = 4
      \<and> map (property ''name'') (fields_of Projects) =
          [Some (Str ''title''), Some (Str ''mainImage''), Some (Str ''url''),
           Some (Str ''description'')]
      \<and> map_option (property ''type'') (field_named ''title'' Projects)
          = Some (Some (Str ''text''))
      \<and> map_option (property ''required'') (field_named ''title'' Projects)
          = Some (Some (Bool True))
      \<and> map_option (property ''type'') (field_named ''url'' Projects)
          = Some (Some (Str ''text''))
      \<and> map_option (property ''type'') (field_named ''description'' Projects)
          = Some (Some (Str ''text''))
      \<and> map (property ''name'') (filter (\<lambda>f. property ''required'' f = Some (Bool True))
            (fields_of Projects)) = [Some (Str ''title'')])"
  by (simp add: field_named_def fields_of_Projects)

text \<open>
  C1 (amended): the Projects schema defines exactly four fields, in the order \<open>title\<close>,
  \<open>mainImage\<close>, \<open>url\<close>, \<open>description\<close>; \<open>title\<close> has type \<open>text\<close> and
  \<open>required: true\<close>, \<open>url\<close> has type \<open>text\<close>, \<open>description\<close> has type
  \<open>textarea\<close>; and \<open>title\<close> is the only field whose \<open>required\<close> is true.
\<close>

theorem Projects_fields:
  "length (fields_of Projects) = 4
   \<and> map (property ''name'') (fields_of Projects) =
       [Some (Str ''title''), Some (Str ''mainImage''), Some (Str ''url''),
        Some (Str ''description'')]
   \<and> map_option (property ''type'') (field_named ''title'' Projects) = Some (Some (Str ''text''))
   \<and> map_option (property ''required'') (field_named ''title'' Projects) = Some (Some (Bool True))
   \<and> map_option (property ''type'') (field_named ''url'' Projects) = Some (Some (Str ''text''))
   \<and> map_option (property ''type'') (field_named ''description'' Projects)
       = Some (Some (Str ''textarea''))
   \<and> map (property ''name'') (filter (\<lambda>f. property ''required'' f = Some (Bool True))
         (fields_of Projects)) = [Some (Str ''title'')]"
  by (simp add: field_named_def fields_of_Projects)

text \<open>
  C2: the field \<open>mainImage\<close> of the Projects collection is a reference to a media
  asset: its type is \<open>upload\<close>, its \<open>relationTo\<close> is the collection \<open>media\<close>, and
  the schema writes \<open>required: false\<close> for it.
\<close>

theorem Projects_mainImage:
  "field_named ''mainImage'' Projects = Some (fields_of Projects ! 1)
   \<and> map_option (property ''type'') (field_named ''mainImage'' Projects)
       = Some (Some (Str ''upload''))
   \<and> map_option (property ''relationTo'') (field_named ''mainImage'' Projects)
       = Some (Some (Str ''media''))
   \<and> map_option (property ''required'') (field_named ''mainImage'' Projects)
       = Some (Some (Bool False))"
  by (simp add: field_named_def fields_of_Projects)

text \<open>
  C3: the Projects configuration declares a slug, an admin display setting and the field
  schema, and nothing else: it has no \<open>hooks\<close>, no \<open>access\<close> and no \<open>endpoints\<close>
  property; its fields carry only a name, a type, a label and (where written) \<open>required\<close>
  and \<open>relationTo\<close>, so no field registers a hook, an access function or a validator;
  and the only relation the schema declares is the one of the field \<open>mainImage\<close>.
\<close>

theorem Projects_declares_only_schema:
  "keys Projects = [''slug'', ''admin'', ''fields'']
   \<and> property ''slug'' Projects = Some (Str ''projects'')
   \<and> property ''admin'' Projects = Some (Obj [(''useAsTitle'', Str ''title'')])
   \<and> property ''hooks'' Projects = None
   \<and> property ''access'' Projects = None
   \<and> property ''endpoints'' Projects = None
   \<and> map keys (fields_of Projects) =
       [[''name'', ''type'', ''required'', ''label''],
        [''name'', ''type'', ''relationTo'', ''required'', ''label''],
        [''name'', ''type'', ''label''],
        [''name'', ''type'', ''label'']]
   \<and> map (property ''name'') (filter (\<lambda>f. property ''relationTo'' f \<noteq> None) (fields_of Projects))
       = [Some (Str ''mainImage'')]"
  by (simp add: fields_of_Projects) (simp add: Projects_def)

section \<open>Properties of the header and the root layout\<close>

text \<open>
  C10: \<open>Header\<close> is a constant function: whatever it is called with, it returns the same
  element, a \<open>header\<close> that holds a logo, which is a link to \<open>/\<close>, and one
  navigation, whose
  children are exactly five links, in the order Home (\<open>/\<close>), About (\<open>/about\<close>), Works
  (\<open>/works\<close>), Contact (\<open>/contact\<close>) and Admin (\<open>/admin\<close>).
\<close>

theorem Header_constant:
  "Header p = Header q
   \<and> tag_of (Header p) = Some (Host ''header'')
   \<and> map is_link (filter (\<lambda>n. attr ''className'' n = Some ''header__logo'')
         (descendants (Header p))) = [True]
   \<and> map link_of (filter (\<lambda>n. attr ''className'' n = Some ''header__logo'')
         (descendants (Header p))) = [(Some ''/'', ''Portfolio'')]
   \<and> length (elements_with (Host ''nav'') (Header p)) = 1
   \<and> filter (\<lambda>n. \<not> is_link n)
         (concat (map children_of (elements_with (Host ''nav'') (Header p)))) = []
   \<and> map link_of (concat (map children_of (elements_with (Host ''nav'') (Header p)))) =
       [(Some ''/'', ''Home''), (Some ''/about'', ''About''), (Some ''/works'', ''Works''),
        (Some ''/contact'', ''Contact''), (Some ''/admin'', ''Admin'')]"
  by (simp add: Header_def elements_with_def link_of_def is_link_def)

text \<open>
  C9: for every value of \<open>children\<close>, \<open>RootLayout\<close> returns an \<open>html\<close> element with
  \<open>lang\<close> \<open>ja\<close> and, as its class, the \<open>variable\<close> classes of the three fonts; its
  only child is the \<open>body\<close>, which holds the \<open>Header\<close> element followed by a
  \<open>main\<close> element whose children are \<open>children\<close>, unchanged. Outside the \<open>main\<close>
  element the tree is the same for all children.
\<close>

theorem RootLayout_frame:
  "tag_of (RootLayout m children) = Some (Host ''html'')
   \<and> attr ''lang'' (RootLayout m children) = Some ''ja''
   \<and> attr ''className'' (RootLayout m children) =
       Some (variable (zenKaku m) @ '' '' @ variable (dancingScript m) @ '' ''
             @ variable (quicksand m))
   \<and> map tag_of (children_of (RootLayout m children)) = [Some (Host ''body'')]
   \<and> concat (map children_of (children_of (RootLayout m children))) =
       [Element (Component ''Header'') [] [], Element (Host ''main'') [] children]
   \<and> without_children_of (Host ''main'') (RootLayout m children) =
       without_children_of (Host ''main'') (RootLayout m children')"
  by (simp add: RootLayout_def)

section \<open>Properties of the home page\<close>

lemma resolves_iff:
  "resolves rt \<longleftrightarrow>
     (\<exists>h c p r. getHeaders rt = Inr h \<and> config rt = Inr c \<and> getPayload rt c = Inr p
        \<and> auth rt p h = Inr r)"
  by (auto simp: resolves_def split: sum.splits)

lemmas HomePage_unfold =
  HomePage_def await_call_def await_value_def resolved_def Let_def

text \<open>
  C4: the tree \<open>HomePage\<close> returns does not depend on the request or on the user: for
  any two environments in which the calls resolve, whatever headers they carry and
  whatever user \<open>auth\<close> resolves with, \<open>HomePage\<close> returns, and returns the same tree.
\<close>

theorem HomePage_independent_of_user:
  assumes "resolves rt" and "resolves rt'"
  shows "\<exists>t. snd (HomePage rt) = Inr t \<and> snd (HomePage rt') = Inr t"
  using assms by (auto simp: resolves_iff HomePage_unfold)

theorem HomePage_independent_of_user_witness:
  "resolves (\<lparr>getHeaders = Inr [(''cookie'', ''payload-token=abc'')], config = Inr ''cfg'',
       getPayload = (\<lambda>c. Inr (length c)),
       auth = (\<lambda>p h. Inr \<lparr>user = Some ''admin''\<rparr>)\<rparr>
      :: ((string \<times> string) list, string, nat, string option, string) runtime)
   \<and> resolves (\<lparr>getHeaders = Inr [], config = Inr ''cfg'',
       getPayload = (\<lambda>c. Inr (length c)),
       auth = (\<lambda>p h. Inr \<lparr>user = None\<rparr>)\<rparr>
      :: ((string \<times> string) list, string, nat, string option, string) runtime)
   \<and> (\<exists>t. snd (HomePage \<lparr>getHeaders = Inr [(''cookie'', ''payload-token=abc'')], config = Inr ''cfg'',
       getPayload = (\<lambda>c. Inr (length c)),
       auth = (\<lambda>p h. Inr \<lparr>user = Some ''admin''\<rparr>)\<rparr>
              :: ((string \<times> string) list, string, nat) call list \<times> (string + node)) = Inr t
          \<and> snd (HomePage \<lparr>getHeaders = Inr [], config = Inr ''cfg'',
       getPayload = (\<lambda>c. Inr (length c)),
       auth = (\<lambda>p h. Inr \<lparr>user = None\<rparr>)\<rparr>
              :: ((string \<times> string) list, string, nat) call list \<times> (string + node)) = Inr t)"
  using HomePage_independent_of_user
    [of "\<lparr>getHeaders = Inr [(''cookie'', ''payload-token=abc'')], config = Inr ''cfg'',
       getPayload = (\<lambda>c. Inr (length c)),
       auth = (\<lambda>p h. Inr \<lparr>user = Some ''admin''\<rparr>)\<rparr>"
        "\<lparr>getHeaders = Inr [], config = Inr ''cfg'',
       getPayload = (\<lambda>c. Inr (length c)),
       auth = (\<lambda>p h. Inr \<lparr>user = None\<rparr>)\<rparr>"]
  by (simp add: resolves_def)

text \<open>
  C6: the home page reaches the CMS through its in-process API only. When the awaited
  values resolve, the calls it makes are, in this order, \<open>getHeaders\<close>, \<open>getPayload\<close>
  on the configuration the repository's \<open>config\<close> resolves with, and \<open>auth\<close> of the
  instance \<open>getPayload\<close> returned, on the headers of the request. In every run it makes
  at most these three calls, and every call it makes is one of them.
\<close>

theorem HomePage_calls:
  "(getHeaders rt = Inr h \<and> config rt = Inr c \<and> getPayload rt c = Inr p \<longrightarrow>
      fst (HomePage rt) = [Call_getHeaders, Call_getPayload c, Call_auth p h])
   \<and> (\<forall>k \<in> set (fst (HomePage rt)).
        k = Call_getHeaders
        \<or> (\<exists>c. config rt = Inr c \<and> k = Call_getPayload c)
        \<or> (\<exists>h c p. getHeaders rt = Inr h \<and> config rt = Inr c \<and> getPayload rt c = Inr p
              \<and> k = Call_auth p h))
   \<and> length (fst (HomePage rt)) \<le> 3"
  by (auto simp: HomePage_unfold split: sum.splits)

theorem HomePage_calls_witness:
  "getHeaders (\<lparr>getHeaders = Inr [(''cookie'', ''payload-token=abc'')], config = Inr ''cfg'',
       getPayload = (\<lambda>c. Inr (length c)),
       auth = (\<lambda>p h. Inr \<lparr>user = Some ''admin''\<rparr>)\<rparr>
      :: ((string \<times> string) list, string, nat, string option, string) runtime) = Inr [(''cookie'', ''payload-token=abc'')]
   \<and> config (\<lparr>getHeaders = Inr [(''cookie'', ''payload-token=abc'')], config = Inr ''cfg'',
       getPayload = (\<lambda>c. Inr (length c)),
       auth = (\<lambda>p h. Inr \<lparr>user = Some ''admin''\<rparr>)\<rparr>
      :: ((string \<times> string) list, string, nat, string option, string) runtime) = Inr ''cfg''
   \<and> getPayload (\<lparr>getHeaders = Inr [(''cookie'', ''payload-token=abc'')], config = Inr ''cfg'',
       getPayload = (\<lambda>c. Inr (length c)),
       auth = (\<lambda>p h. Inr \<lparr>user = Some ''admin''\<rparr>)\<rparr>
      :: ((string \<times> string) list, string, nat, string option, string) runtime) ''cfg'' = Inr 3
   \<and> fst (HomePage \<lparr>getHeaders = Inr [(''cookie'', ''payload-token=abc'')], config = Inr ''cfg'',
       getPayload = (\<lambda>c. Inr (length c)),
       auth = (\<lambda>p h. Inr \<lparr>user = Some ''admin''\<rparr>)\<rparr>
       :: ((string \<times> string) list, string, nat) call list \<times> (string + node))
     = [Call_getHeaders, Call_getPayload ''cfg'',
        Call_auth 3 [(''cookie'', ''payload-token=abc'')]]
   \<and> Call_auth 3 [(''cookie'', ''payload-token=abc'')]
     \<in> set (fst (HomePage \<lparr>getHeaders = Inr [(''cookie'', ''payload-token=abc'')], config = Inr ''cfg'',
       getPayload = (\<lambda>c. Inr (length c)),
       auth = (\<lambda>p h. Inr \<lparr>user = Some ''admin''\<rparr>)\<rparr>
       :: ((string \<times> string) list, string, nat) call list \<times> (string + node)))"
  using HomePage_calls
    [of "\<lparr>getHeaders = Inr [(''cookie'', ''payload-token=abc'')], config = Inr ''cfg'',
       getPayload = (\<lambda>c. Inr (length c)),
       auth = (\<lambda>p h. Inr \<lparr>user = Some ''admin''\<rparr>)\<rparr>"
        "[(''cookie'', ''payload-token=abc'')]" "''cfg''" 3]
  by auto



section \<open>Properties of the container build\<close>

text \<open>
  C5: the container build has exactly two stages, \<open>builder\<close> and \<open>runner\<close>. The
  runner stage copies three things and nothing else, each from the builder: the public
  directory, the standalone build output and the static assets. It exposes port 3000,
  sets \<open>PORT\<close> to 3000, and its command, the last instruction of the file, is
  \<^verbatim>\<open>node server.js\<close>.
\<close>

theorem Dockerfile_stages:
  "length (stages Dockerfile) = 2
   \<and> map stage_name (stages Dockerfile) = [Some ''builder'', Some ''runner'']
   \<and> filter is_COPY (stages Dockerfile ! 1) =
       [COPY (Some ''builder'') ''/app/public'' ''./public'',
        COPY (Some ''builder'') ''/app/.next/standalone'' ''./'',
        COPY (Some ''builder'') ''/app/.next/static'' ''./.next/static'']
   \<and> exposed (stages Dockerfile ! 1) = [3000]
   \<and> env_of (stages Dockerfile ! 1) ''PORT'' = Some ''3000''
   \<and> command (stages Dockerfile ! 1) = Some [''node'', ''server.js'']
   \<and> last Dockerfile = CMD [''node'', ''server.js'']"
  by (simp add: stages_def Dockerfile_def)

end
